theory Spec2Isabelle
  imports Complex_Main "HOL-Library.AList"
begin

section \<open>Cells, columns and frames\<close>

text \<open>
  The ingest function of \<^verbatim>\<open>lambda_function.py\<close> flattens one JSON document into a pandas
  frame, casts its columns to the types of a Glue table and writes the frame as a Parquet
  object. The frame is modelled as the list of its named columns, in column order; a
  column carries its dtype and its cells.

  A cell is one of the Python objects a flattened JSON document holds (\<open>None\<close> for an
  explicit JSON null, the float \<open>NaN\<close> for a key missing from a row, an int, a float, a
  bool, a str, a list, and dicts inside lists) or one of the objects a cast produces
  (\<open>pd.NA\<close> in a nullable integer column, a timestamp or \<open>NaT\<close> in a datetime column).
  A finite float is represented by its exact rational value; rounding and the 64-bit range
  of integers are not modelled.
\<close>

datatype val =
    VNone
  | VNaN
  | VNA
  | VNaT
  | VInt int
  | VFloat rat
  | VBool bool
  | VStr string
  | VList "val list"
  | VDict "(string \<times> val) list"
  | VTimestamp int

text \<open>\<^verbatim>\<open>pd.isna\<close>: the four null sentinels.\<close>

fun isna :: "val \<Rightarrow> bool" where
  "isna VNone = True"
| "isna VNaN = True"
| "isna VNA = True"
| "isna VNaT = True"
| "isna _ = False"

datatype dtype = D_int64 | D_float64 | D_bool | D_object | D_Int64 | D_datetime64

record column =
  dtype :: dtype
  cells :: "val list"

type_synonym dataframe = "(string \<times> column) list"

datatype error =
    IndexError
  | TypeError
  | NoSuchKey
  | NoSuchBucket
  | EntityNotFoundException
  | AlreadyExistsException
  | OtherError string

section \<open>The pandas operations the caster calls\<close>

text \<open>
  Three library behaviours are taken as parameters: how \<^verbatim>\<open>pd.to_numeric\<close> reads a
  non-empty string (\<open>None\<close> when it is not a number), Python's \<^verbatim>\<open>str()\<close> of a number,
  list, dict or timestamp, and \<^verbatim>\<open>pd.to_datetime(..., errors='coerce')\<close> on a whole column.
\<close>

record pandas =
  str_to_number :: "string \<Rightarrow> rat option"
  py_str :: "val \<Rightarrow> string"
  to_datetime :: "val list \<Rightarrow> val list"

text \<open>
  \<^verbatim>\<open>pd.to_numeric(s, errors='coerce')\<close>, cell by cell: a number is kept, a bool counts as
  0 or 1, a string is parsed, and everything that is not a number becomes NaN (\<open>None\<close>
  here).
\<close>

fun to_numeric_cell :: "pandas \<Rightarrow> val \<Rightarrow> rat option" where
  "to_numeric_cell pd (VInt n) = Some (of_int n)"
| "to_numeric_cell pd (VFloat r) = Some r"
| "to_numeric_cell pd (VBool b) = Some (if b then 1 else 0)"
| "to_numeric_cell pd (VStr s) = (if s = [] then None else str_to_number pd s)"
| "to_numeric_cell pd _ = None"

definition to_numeric :: "pandas \<Rightarrow> val list \<Rightarrow> rat option list" where
  "to_numeric pd vs = map (to_numeric_cell pd) vs"

text \<open>
  \<^verbatim>\<open>.astype('Int64')\<close> on the result of \<^verbatim>\<open>to_numeric\<close>: NaN becomes \<open>pd.NA\<close>, and the
  conversion raises TypeError (cannot safely cast non-equivalent float64 to int64) as soon
  as one number is not integral or does not fit into 64 bits. Numbers are exact
  rationals here: the rounding of float64 above \<open>2 ^ 53\<close> and the infinities are not
  modelled.
\<close>

definition integral :: "rat \<Rightarrow> bool" where
  "integral r = (of_int \<lfloor>r\<rfloor> = r)"

definition int64_range :: "rat \<Rightarrow> bool" where
  "int64_range r = (- (2 ^ 63) \<le> r \<and> r < 2 ^ 63)"

fun Int64_cell :: "rat option \<Rightarrow> val" where
  "Int64_cell None = VNA"
| "Int64_cell (Some r) = VInt \<lfloor>r\<rfloor>"

definition astype_Int64 :: "rat option list \<Rightarrow> error + val list" where
  "astype_Int64 xs =
     (if list_all (\<lambda>x. case x of None \<Rightarrow> True | Some r \<Rightarrow> integral r \<and> int64_range r) xs
      then Inr (map Int64_cell xs) else Inl TypeError)"

text \<open>\<^verbatim>\<open>.astype(float)\<close> on the result of \<^verbatim>\<open>to_numeric\<close>.\<close>

fun float_cell :: "rat option \<Rightarrow> val" where
  "float_cell None = VNaN"
| "float_cell (Some r) = VFloat r"

definition astype_float :: "rat option list \<Rightarrow> val list" where
  "astype_float xs = map float_cell xs"

text \<open>
  \<^verbatim>\<open>.astype(bool)\<close> takes Python's truth value of every cell: \<open>None\<close>, zero and the empty
  string, list and dict are false, every other object is true, NaN included;
  \<open>bool(pd.NA)\<close> raises TypeError.
\<close>

fun truth :: "val \<Rightarrow> error + bool" where
  "truth VNone = Inr False"
| "truth VNaN = Inr True"
| "truth VNA = Inl TypeError"
| "truth VNaT = Inr True"
| "truth (VInt n) = Inr (n \<noteq> 0)"
| "truth (VFloat r) = Inr (r \<noteq> 0)"
| "truth (VBool b) = Inr b"
| "truth (VStr s) = Inr (s \<noteq> [])"
| "truth (VList xs) = Inr (xs \<noteq> [])"
| "truth (VDict kvs) = Inr (kvs \<noteq> [])"
| "truth (VTimestamp t) = Inr True"

fun astype_bool :: "val list \<Rightarrow> error + val list" where
  "astype_bool [] = Inr []"
| "astype_bool (v # vs) =
     (case truth v of
        Inl e \<Rightarrow> Inl e
      | Inr b \<Rightarrow> (case astype_bool vs of Inl e \<Rightarrow> Inl e | Inr bs \<Rightarrow> Inr (VBool b # bs)))"

text \<open>
  \<^verbatim>\<open>.astype(str)\<close> replaces every cell by its \<^verbatim>\<open>str()\<close>: the null sentinels become the
  texts \<open>None\<close>, \<open>nan\<close>, \<open><NA>\<close> and \<open>NaT\<close>.
\<close>

fun str_cell :: "pandas \<Rightarrow> val \<Rightarrow> val" where
  "str_cell pd VNone = VStr ''None''"
| "str_cell pd VNaN = VStr ''nan''"
| "str_cell pd VNA = VStr ''<NA>''"
| "str_cell pd VNaT = VStr ''NaT''"
| "str_cell pd (VBool b) = VStr (if b then ''True'' else ''False'')"
| "str_cell pd (VStr s) = VStr s"
| "str_cell pd v = VStr (py_str pd v)"

definition astype_str :: "pandas \<Rightarrow> val list \<Rightarrow> val list" where
  "astype_str pd vs = map (str_cell pd) vs"

section \<open>The caster\<close>

text \<open>
  The \<^verbatim>\<open>if/elif\<close> chain of \<^verbatim>\<open>cast_dataframe_to_glue_schema\<close> (lines 35 to 44): the new
  column for one Glue type, or the exception the conversion raises. A type that is none of
  the five (\<open>int\<close>, which the inferrer reports, is one) leaves the column as it is.
\<close>

definition cast_column :: "pandas \<Rightarrow> string \<Rightarrow> column \<Rightarrow> error + column" where
  "cast_column pd ty c =
     (if ty = ''bigint'' then
        (case astype_Int64 (to_numeric pd (cells c)) of
           Inl e \<Rightarrow> Inl e
         | Inr vs \<Rightarrow> Inr \<lparr>dtype = D_Int64, cells = vs\<rparr>)
      else if ty = ''double'' then
        Inr \<lparr>dtype = D_float64, cells = astype_float (to_numeric pd (cells c))\<rparr>
      else if ty = ''boolean'' then
        (case astype_bool (cells c) of
           Inl e \<Rightarrow> Inl e
         | Inr vs \<Rightarrow> Inr \<lparr>dtype = D_bool, cells = vs\<rparr>)
      else if ty = ''string'' then
        Inr \<lparr>dtype = D_object, cells = astype_str pd (cells c)\<rparr>
      else if ty = ''timestamp'' then
        Inr \<lparr>dtype = D_datetime64, cells = to_datetime pd (cells c)\<rparr>
      else Inr c)"

text \<open>
  \<^verbatim>\<open>cast_dataframe_to_glue_schema(df, glue_schema)\<close>. The schema is a dict, given by its
  items in order. The frame is mutated in place, so the model returns the frame as it is
  when the function returns or raises, together with the exception raised, if any.
  \<^verbatim>\<open>column in df.columns\<close> and \<^verbatim>\<open>df[column]\<close> are the lookup \<open>map_of df column\<close>;
  \<^verbatim>\<open>df[column] = ...\<close> replaces the column where it stands.
\<close>

fun cast_dataframe_to_glue_schema ::
  "pandas \<Rightarrow> dataframe \<Rightarrow> (string \<times> string) list \<Rightarrow> dataframe \<times> error option" where
  "cast_dataframe_to_glue_schema pd df [] = (df, None)"
| "cast_dataframe_to_glue_schema pd df ((column, ty) # glue_schema) =
     (case map_of df column of
        None \<Rightarrow> cast_dataframe_to_glue_schema pd df glue_schema
      | Some c \<Rightarrow>
          (case cast_column pd ty c of
             Inl e \<Rightarrow> (df, Some e)
           | Inr c' \<Rightarrow>
               cast_dataframe_to_glue_schema pd (AList.update column c' df) glue_schema))"

section \<open>The schema inferrer\<close>

fun is_integer_dtype :: "dtype \<Rightarrow> bool" where
  "is_integer_dtype D_int64 = True"
| "is_integer_dtype D_Int64 = True"
| "is_integer_dtype _ = False"

definition infer_glue_type :: "dtype \<Rightarrow> string" where
  "infer_glue_type d =
     (if is_integer_dtype d then ''int''
      else if d = D_float64 then ''double''
      else if d = D_bool then ''boolean''
      else if d = D_datetime64 then ''timestamp''
      else ''string'')"

definition infer_glue_schema_from_dataframe :: "dataframe \<Rightarrow> (string \<times> string) list" where
  "infer_glue_schema_from_dataframe df = map (\<lambda>(column, c). (column, infer_glue_type (dtype c))) df"

section \<open>The catalog service and the object store\<close>

text \<open>
  The table definition the registrar sends (\<^verbatim>\<open>TableInput\<close>, lines 81 to 94), and the
  Glue catalog as the service keeps it: the tables of every database, by name.
\<close>

record storage_descriptor =
  Columns :: "(string \<times> string) list"
  Location :: string
  InputFormat :: string
  OutputFormat :: string
  Compressed :: bool
  SerializationLibrary :: string

record table_input =
  Name :: string
  StorageDescriptor :: storage_descriptor
  TableType :: string

type_synonym catalog = "string \<rightharpoonup> (string \<rightharpoonup> table_input)"

text \<open>
  \<^verbatim>\<open>glue_client.get_table\<close> raises EntityNotFoundException when the database or the table
  is missing; \<^verbatim>\<open>glue_client.create_table\<close> raises it for a missing database,
  AlreadyExistsException for a table that is there, and stores the table otherwise.
\<close>

definition get_table :: "catalog \<Rightarrow> string \<Rightarrow> string \<Rightarrow> error + table_input" where
  "get_table cat database_name table_name =
     (case cat database_name of
        None \<Rightarrow> Inl EntityNotFoundException
      | Some tables \<Rightarrow>
          (case tables table_name of
             None \<Rightarrow> Inl EntityNotFoundException
           | Some t \<Rightarrow> Inr t))"

definition create_table :: "catalog \<Rightarrow> string \<Rightarrow> table_input \<Rightarrow> error + catalog" where
  "create_table cat database_name t =
     (case cat database_name of
        None \<Rightarrow> Inl EntityNotFoundException
      | Some tables \<Rightarrow>
          (case tables (Name t) of
             Some _ \<Rightarrow> Inl AlreadyExistsException
           | None \<Rightarrow> Inr (cat(database_name \<mapsto> tables(Name t \<mapsto> t)))))"

text \<open>
  Everything an invocation reads and writes: the objects of the store by bucket and key,
  the buckets that exist, the catalog, and the lines printed so far.
\<close>

datatype log_entry =
    Msg string
  | Exc error
  | TableCreated string "(string \<times> string) list"

record 'b world =
  objects :: "(string \<times> string) \<rightharpoonup> 'b"
  buckets :: "string set"
  glue :: catalog
  stdout :: "log_entry list"

definition print :: "log_entry \<Rightarrow> 'b world \<Rightarrow> 'b world" where
  "print l w = w\<lparr>stdout := stdout w @ [l]\<rparr>"

definition get_object :: "'b world \<Rightarrow> string \<Rightarrow> string \<Rightarrow> error + 'b" where
  "get_object w bucket key =
     (if bucket \<notin> buckets w then Inl NoSuchBucket
      else case objects w (bucket, key) of None \<Rightarrow> Inl NoSuchKey | Some content \<Rightarrow> Inr content)"

definition put_object :: "'b world \<Rightarrow> string \<Rightarrow> string \<Rightarrow> 'b \<Rightarrow> 'b world \<times> (error + unit)" where
  "put_object w bucket key body' =
     (if bucket \<notin> buckets w then (w, Inl NoSuchBucket)
      else (w\<lparr>objects := (objects w)((bucket, key) \<mapsto> body')\<rparr>, Inr ()))"

section \<open>The schema fetcher and the registrar\<close>

text \<open>
  The dict comprehension of line 24: a name that occurs twice keeps its first place and
  its last type.
\<close>

definition dict_of_columns :: "(string \<times> string) list \<Rightarrow> (string \<times> string) list" where
  "dict_of_columns columns = fold (\<lambda>(name, ty) d. AList.update name ty d) columns []"

definition get_glue_table_schema ::
  "'b world \<Rightarrow> string \<Rightarrow> string \<Rightarrow> 'b world \<times> (error + (string \<times> string) list)" where
  "get_glue_table_schema w database_name table_name =
     (case get_table (glue w) database_name table_name of
        Inr t \<Rightarrow> (w, Inr (dict_of_columns (Columns (StorageDescriptor t))))
      | Inl e \<Rightarrow>
          (if e = EntityNotFoundException
           then (print (Msg (''Table '' @ table_name @ '' not found in database ''
                             @ database_name @ ''.'')) w, Inl e)
           else (w, Inl e)))"

definition table_input_of :: "string \<Rightarrow> string \<Rightarrow> (string \<times> string) list \<Rightarrow> table_input" where
  "table_input_of table_name s3_location glue_schema =
     \<lparr>Name = table_name,
      StorageDescriptor =
        \<lparr>Columns = glue_schema,
         Location = s3_location,
         InputFormat = ''org.apache.hadoop.hive.ql.io.parquet.MapredParquetInputFormat'',
         OutputFormat = ''org.apache.hadoop.hive.ql.io.parquet.MapredParquetOutputFormat'',
         Compressed = False,
         SerializationLibrary = ''org.apache.hadoop.hive.ql.io.parquet.serde.ParquetHiveSerDe''\<rparr>,
      TableType = ''EXTERNAL_TABLE''\<rparr>"

text \<open>
  \<^verbatim>\<open>create_glue_table_if_not_exists\<close>. The function makes two calls to the catalog
  service, and other invocations may change the catalog between them: \<open>others\<close> is what
  they do to it between the existence check and the create call (the identity when the
  invocation runs alone).
\<close>

definition create_glue_table_if_not_exists ::
  "(catalog \<Rightarrow> catalog) \<Rightarrow> 'b world \<Rightarrow> string \<Rightarrow> string \<Rightarrow> string \<Rightarrow> (string \<times> string) list
     \<Rightarrow> 'b world \<times> (error + unit)" where
  "create_glue_table_if_not_exists others w database_name table_name s3_location glue_schema =
     (case get_table (glue w) database_name table_name of
        Inr t \<Rightarrow>
          (print (Msg (''Table '' @ table_name @ '' already exists in database ''
                       @ database_name @ ''.'')) w, Inr ())
      | Inl e \<Rightarrow>
          (if e = EntityNotFoundException then
             (let w1 = print (Msg (''Table '' @ table_name
                                   @ '' does not exist. Creating with inferred schema...'')) w;
                  w2 = w1\<lparr>glue := others (glue w1)\<rparr>
              in case create_table (glue w2) database_name
                        (table_input_of table_name s3_location glue_schema) of
                   Inl e' \<Rightarrow> (w2, Inl e')
                 | Inr cat \<Rightarrow> (print (TableCreated table_name glue_schema) (w2\<lparr>glue := cat\<rparr>), Inr ()))
           else (w, Inl e)))"

section \<open>The handler\<close>

text \<open>
  \<^verbatim>\<open>str.replace(old, new)\<close>: every occurrence of \<open>old\<close> is replaced, from the left and
  without overlap; an empty \<open>old\<close> matches before every character and at the end.
\<close>

function replace_nonempty :: "string \<Rightarrow> string \<Rightarrow> string \<Rightarrow> string" where
  "replace_nonempty old new [] = []"
| "replace_nonempty old new (c # s) =
     (if old \<noteq> [] \<and> take (length old) (c # s) = old
      then new @ replace_nonempty old new (drop (length old) (c # s))
      else c # replace_nonempty old new s)"
  by pat_completeness auto
termination
  by (relation "measure (\<lambda>(old, new, s). length s)") auto

definition str_replace :: "string \<Rightarrow> string \<Rightarrow> string \<Rightarrow> string" where
  "str_replace s old new =
     (if old = [] then new @ concat (map (\<lambda>c. c # new) s) else replace_nonempty old new s)"

text \<open>
  The configuration the module reads from the environment, and what the handler takes
  from its libraries: the pandas operations above, \<^verbatim>\<open>urllib.parse.unquote_plus\<close>, the
  reading and flattening of the document (\<^verbatim>\<open>pd.read_json\<close> and
  \<^verbatim>\<open>pd.json_normalize(df_raw['items'])\<close>, lines 108 to 111) and \<^verbatim>\<open>DataFrame.to_parquet\<close>;
  the last two may raise. \<open>concurrent\<close> is what other invocations do to the catalog while
  the registrar runs.
\<close>

record 'b env =
  os_input_s3_cleansed_layer :: string
  os_input_glue_catalog_db_name :: string
  os_input_glue_catalog_table_name :: string
  os_input_write_data_operation :: string
  lib :: pandas
  unquote_plus :: "string \<Rightarrow> string"
  read_items :: "'b \<Rightarrow> error + dataframe"
  to_parquet :: "dataframe \<Rightarrow> error + 'b"
  concurrent :: "catalog \<Rightarrow> catalog"

text \<open>One record of the notification: \<^verbatim>\<open>['s3']['bucket']['name']\<close> and \<^verbatim>\<open>['s3']['object']['key']\<close>.\<close>

record s3_record =
  bucket_name :: string
  object_key :: string

record response =
  statusCode :: int
  body :: string

text \<open>
  Lines 113 to 126, the inner \<^verbatim>\<open>try\<close>: the frame that goes on to serialisation. The
  \<^verbatim>\<open>except\<close> clause catches the EntityNotFoundException of the fetch; what the cast or
  the registrar raises leaves the block.
\<close>

definition resolve_schema :: "'b env \<Rightarrow> 'b world \<Rightarrow> dataframe \<Rightarrow> 'b world \<times> (error + dataframe)" where
  "resolve_schema env w df_step_1 =
     (case get_glue_table_schema w (os_input_glue_catalog_db_name env)
             (os_input_glue_catalog_table_name env) of
        (w1, Inr glue_schema) \<Rightarrow>
          (case cast_dataframe_to_glue_schema (lib env) df_step_1 glue_schema of
             (df, None) \<Rightarrow> (w1, Inr df)
           | (df, Some e) \<Rightarrow> (w1, Inl e))
      | (w1, Inl e) \<Rightarrow>
          (if e = EntityNotFoundException then
             (let glue_schema = infer_glue_schema_from_dataframe df_step_1
              in case create_glue_table_if_not_exists (concurrent env) w1
                        (os_input_glue_catalog_db_name env)
                        (os_input_glue_catalog_table_name env)
                        (''s3://'' @ os_input_s3_cleansed_layer env @ ''/'')
                        glue_schema of
                   (w2, Inl e') \<Rightarrow> (w2, Inl e')
                 | (w2, Inr u) \<Rightarrow> (w2, Inr df_step_1))
           else (w1, Inl e)))"

text \<open>Lines 103 to 143, the body of the outer \<^verbatim>\<open>try\<close>.\<close>

definition process_object ::
  "'b env \<Rightarrow> 'b world \<Rightarrow> string \<Rightarrow> string \<Rightarrow> 'b world \<times> (error + response)" where
  "process_object env w bucket key =
     (case get_object w bucket key of
        Inl e \<Rightarrow> (w, Inl e)
      | Inr content \<Rightarrow>
          (case read_items env content of
             Inl e \<Rightarrow> (w, Inl e)
           | Inr df_step_1 \<Rightarrow>
               (case resolve_schema env w df_step_1 of
                  (w1, Inl e) \<Rightarrow> (w1, Inl e)
                | (w1, Inr df) \<Rightarrow>
                    (case to_parquet env df of
                       Inl e \<Rightarrow> (w1, Inl e)
                     | Inr parquet_buffer \<Rightarrow>
                         (case put_object w1 (os_input_s3_cleansed_layer env)
                                 (str_replace key ''.json'' ''.parquet'') parquet_buffer of
                            (w2, Inl e) \<Rightarrow> (w2, Inl e)
                          | (w2, Inr u) \<Rightarrow>
                              (w2, Inr \<lparr>statusCode = 200,
                                       body = ''File '' @ key
                                              @ '' processed and saved as Parquet.''\<rparr>))))))"

text \<open>
  \<^verbatim>\<open>lambda_handler(event, context)\<close>; the event is given by its list of records.
  \<^verbatim>\<open>event['Records'][0]\<close> is read before the \<^verbatim>\<open>try\<close>, so an empty list raises
  IndexError past the handler's own logging.
\<close>

definition lambda_handler ::
  "'b env \<Rightarrow> s3_record list \<Rightarrow> 'b world \<Rightarrow> 'b world \<times> (error + response)" where
  "lambda_handler env records w =
     (case records of
        [] \<Rightarrow> (w, Inl IndexError)
      | r # rest \<Rightarrow>
          (let bucket = bucket_name r;
               key = unquote_plus env (object_key r)
           in case process_object env w bucket key of
                (w', Inr result) \<Rightarrow> (w', Inr result)
              | (w', Inl e) \<Rightarrow>
                  (print (Msg (''Error processing object '' @ key @ '' from bucket ''
                               @ bucket @ ''.''))
                     (print (Exc e) w'), Inl e)))"

section \<open>Example instances\<close>

text \<open>
  An instance of the library parameters for the examples: no string reads as a number,
  every object prints as \<open>obj\<close>, and no cell is a date.
\<close>

definition example_pandas :: pandas where
  "example_pandas =
     \<lparr>str_to_number = (\<lambda>s. None), py_str = (\<lambda>v. ''obj''), to_datetime = map (\<lambda>v. VNaT)\<rparr>"

text \<open>
  An instance of the handler's environment and of the world for the examples. An object
  of the store is the frame it holds, so reading a document and serialising a frame are
  both the identity, and the artifact that was written shows the frame that was
  serialised. The store has a source bucket \<open>raw\<close> with one document and a destination
  bucket \<open>clean\<close>; the catalog has the database \<open>db\<close> with no table in it.
\<close>

definition example_frame :: dataframe where
  "example_frame =
     [(''id'', \<lparr>dtype = D_int64, cells = [VInt 1, VInt 2]\<rparr>),
      (''title'', \<lparr>dtype = D_object, cells = [VStr ''x'', VNone]\<rparr>)]"

definition example_env :: "dataframe env" where
  "example_env =
     \<lparr>os_input_s3_cleansed_layer = ''clean'',
      os_input_glue_catalog_db_name = ''db'',
      os_input_glue_catalog_table_name = ''stats'',
      os_input_write_data_operation = ''append'',
      lib = example_pandas,
      unquote_plus = (\<lambda>s. s),
      read_items = Inr,
      to_parquet = Inr,
      concurrent = (\<lambda>cat. cat)\<rparr>"

definition example_world :: "dataframe world" where
  "example_world =
     \<lparr>objects = [(''raw'', ''data.json'') \<mapsto> example_frame],
      buckets = {''raw'', ''clean''},
      glue = [''db'' \<mapsto> Map.empty],
      stdout = []\<rparr>"

definition example_record :: s3_record where
  "example_record = \<lparr>bucket_name = ''raw'', object_key = ''data.json''\<rparr>"


text \<open>
  The same world once the table is registered, with a schema that names the column
  \<open>title\<close> only.
\<close>

definition registered_world :: "dataframe world" where
  "registered_world =
     example_world\<lparr>glue := [''db'' \<mapsto>
       [''stats'' \<mapsto> table_input_of ''stats'' ''s3://clean/'' [(''title'', ''string'')]]]\<rparr>"

text \<open>
  The create call of another invocation that registers the same table: it adds the
  table where the database exists and the table does not, and leaves the catalog as it
  is otherwise. \<open>racing_env\<close> is the example environment in which this call lands
  between the registrar's existence check and its own create call.
\<close>

definition other_invocation :: "string \<Rightarrow> string \<Rightarrow> string \<Rightarrow> (string \<times> string) list \<Rightarrow> catalog \<Rightarrow> catalog" where
  "other_invocation database_name table_name s3_location glue_schema cat =
     (case create_table cat database_name (table_input_of table_name s3_location glue_schema) of
        Inl e \<Rightarrow> cat
      | Inr cat' \<Rightarrow> cat')"

definition racing_env :: "dataframe env" where
  "racing_env =
     example_env\<lparr>concurrent :=
       other_invocation ''db'' ''stats'' ''s3://clean/''
         (infer_glue_schema_from_dataframe example_frame)\<rparr>"

section \<open>Properties of the pandas operations\<close>

lemma astype_bool_Cons_Inr:
  "astype_bool (v # vs) = Inr bs \<longleftrightarrow>
     (\<exists>t bs'. truth v = Inr t \<and> astype_bool vs = Inr bs' \<and> bs = VBool t # bs')"
  by (auto split: sum.splits)

lemma astype_bool_iff:
  "astype_bool vs = Inr bs \<longleftrightarrow> list_all2 (\<lambda>v b. \<exists>t. truth v = Inr t \<and> b = VBool t) vs bs"
proof (induction vs arbitrary: bs)
  case Nil
  then show ?case by auto
next
  case (Cons v vs)
  show ?case
    unfolding astype_bool_Cons_Inr list_all2_Cons1 Cons.IH by blast
qed

lemma truth_defined: "v \<noteq> VNA \<Longrightarrow> \<exists>t. truth v = Inr t"
  by (cases v) auto

lemma astype_bool_returns: "VNA \<notin> set vs \<Longrightarrow> \<exists>bs. astype_bool vs = Inr bs"
proof (induction vs)
  case Nil
  then show ?case by simp
next
  case (Cons v vs)
  then obtain bs where "astype_bool vs = Inr bs" by auto
  moreover from Cons.prems obtain t where "truth v = Inr t"
    using truth_defined [of v] by auto
  ultimately show ?case by simp
qed

lemma astype_bool_cells:
  assumes "astype_bool vs = Inr bs" and "b \<in> set bs"
  shows "\<exists>t. b = VBool t"
proof -
  from assms(1) have "list_all2 (\<lambda>v b. \<exists>t. truth v = Inr t \<and> b = VBool t) vs bs"
    by (simp add: astype_bool_iff)
  then show ?thesis
    using assms(2) by (induction rule: list_all2_induct) auto
qed

lemma astype_bool_length: "astype_bool vs = Inr bs \<Longrightarrow> length bs = length vs"
  by (simp add: astype_bool_iff list_all2_lengthD)

lemma astype_bool_nth:
  assumes "astype_bool vs = Inr bs" and "i < length vs"
  shows "truth (vs ! i) = Inr t \<longleftrightarrow> bs ! i = VBool t"
proof -
  from assms(1) have "list_all2 (\<lambda>v b. \<exists>t. truth v = Inr t \<and> b = VBool t) vs bs"
    by (simp add: astype_bool_iff)
  from list_all2_nthD [OF this assms(2)] show ?thesis by auto
qed

lemma cast_boolean_Inr:
  "cast_column pd ''boolean'' c = Inr c' \<longleftrightarrow>
     (\<exists>bs. astype_bool (cells c) = Inr bs \<and> c' = \<lparr>dtype = D_bool, cells = bs\<rparr>)"
  by (auto simp: cast_column_def split: sum.splits)

lemma floor_three_halves: "\<lfloor>3 / 2 :: rat\<rfloor> = 1"
  by (rule floor_unique) simp_all

lemma not_integral_three_halves: "\<not> integral (3 / 2)"
  by (simp add: integral_def floor_three_halves)

lemma str_cell_is_str: "\<exists>s. str_cell pd v = VStr s"
  by (cases v) simp_all

lemma cast_string_eq:
  "cast_column pd ''string'' c = Inr \<lparr>dtype = D_object, cells = map (str_cell pd) (cells c)\<rparr>"
  by (simp add: cast_column_def astype_str_def)

lemma update_nth_other:
  "i < length al \<Longrightarrow> fst (al ! i) \<noteq> k \<Longrightarrow> AList.update k v al ! i = al ! i"
proof (induction al arbitrary: i)
  case Nil
  then show ?case by simp
next
  case (Cons p al)
  then show ?case by (cases i) auto
qed

lemma update_present_keys:
  "map_of al k = Some c \<Longrightarrow> map fst (AList.update k v al) = map fst al"
  by (force simp: update_keys dest: map_of_SomeD)

section \<open>The caster: value-level failures\<close>

text \<open>
  C3. The caster does not degrade every value-level failure to null. At a \<open>bigint\<close> column
  holding the number 1.5, \<^verbatim>\<open>to_numeric\<close> keeps 1.5 and \<^verbatim>\<open>astype('Int64')\<close> raises
  TypeError: the function raises, with the frame as it was, whatever the library
  parameters are.
\<close>

theorem bigint_cast_raises_on_fraction:
  "cast_dataframe_to_glue_schema pd
     [(''views'', \<lparr>dtype = D_float64, cells = [VFloat (3 / 2)]\<rparr>)] [(''views'', ''bigint'')]
   = ([(''views'', \<lparr>dtype = D_float64, cells = [VFloat (3 / 2)]\<rparr>)], Some TypeError)"
  by (simp add: cast_column_def astype_Int64_def to_numeric_def not_integral_three_halves)

text \<open>
  C4. A boolean cast of the cells \<open>0, 1, "", "x"\<close> gives \<open>False, True, False, True\<close>. A
  boolean cast that returns keeps the number of cells and leaves no null in the column,
  and the truth value of a cell that is not null is always defined, so a non-null input
  never gives a null output.
\<close>

theorem boolean_cast_truth_values:
  "cast_column pd ''boolean'' \<lparr>dtype = D_object, cells = [VInt 0, VInt 1, VStr '''', VStr ''x'']\<rparr>
     = Inr \<lparr>dtype = D_bool, cells = [VBool False, VBool True, VBool False, VBool True]\<rparr>
   \<and> (cast_column pd ''boolean'' c = Inr c' \<longrightarrow>
        length (cells c') = length (cells c) \<and> (\<forall>b \<in> set (cells c'). \<not> isna b))
   \<and> (\<not> isna v \<longrightarrow> (\<exists>t. truth v = Inr t))"
proof (intro conjI impI)
  show "cast_column pd ''boolean'' \<lparr>dtype = D_object, cells = [VInt 0, VInt 1, VStr '''', VStr ''x'']\<rparr>
     = Inr \<lparr>dtype = D_bool, cells = [VBool False, VBool True, VBool False, VBool True]\<rparr>"
    by (simp add: cast_column_def)
next
  assume "cast_column pd ''boolean'' c = Inr c'"
  then obtain bs where bs: "astype_bool (cells c) = Inr bs" and c': "cells c' = bs"
    by (auto simp: cast_boolean_Inr)
  show "length (cells c') = length (cells c)"
    using bs c' by (simp add: astype_bool_length)
  show "\<forall>b \<in> set (cells c'). \<not> isna b"
  proof
    fix b assume "b \<in> set (cells c')"
    with bs c' obtain t where "b = VBool t"
      using astype_bool_cells by blast
    then show "\<not> isna b" by simp
  qed
next
  assume "\<not> isna v"
  then show "\<exists>t. truth v = Inr t" by (cases v) auto
qed

theorem boolean_cast_truth_values_witness:
  "cast_column example_pandas ''boolean'' \<lparr>dtype = D_object, cells = [VStr ''yes'', VInt 0]\<rparr>
     = Inr \<lparr>dtype = D_bool, cells = [VBool True, VBool False]\<rparr>
   \<and> length (cells \<lparr>dtype = D_bool, cells = [VBool True, VBool False]\<rparr>)
       = length (cells \<lparr>dtype = D_object, cells = [VStr ''yes'', VInt 0]\<rparr>)
   \<and> list_all (\<lambda>b. \<not> isna b) (cells \<lparr>dtype = D_bool, cells = [VBool True, VBool False]\<rparr>)
   \<and> \<not> isna (VStr ''yes'') \<and> (\<exists>t. truth (VStr ''yes'') = Inr t)"
proof -
  have run: "cast_column example_pandas ''boolean'' \<lparr>dtype = D_object, cells = [VStr ''yes'', VInt 0]\<rparr>
     = Inr \<lparr>dtype = D_bool, cells = [VBool True, VBool False]\<rparr>"
    by (simp add: cast_column_def)
  have nn: "\<not> isna (VStr ''yes'')" by simp
  from boolean_cast_truth_values [of example_pandas
      "\<lparr>dtype = D_object, cells = [VStr ''yes'', VInt 0]\<rparr>"
      "\<lparr>dtype = D_bool, cells = [VBool True, VBool False]\<rparr>" "VStr ''yes''"] run nn
  show ?thesis unfolding list_all_iff by blast
qed

text \<open>
  The claim C8 fails at an explicit \<open>None\<close>: the column \<open>None, "x"\<close> becomes
  \<open>False, True\<close>.
\<close>

theorem boolean_cast_of_None_counterexample:
  "cast_column example_pandas ''boolean'' \<lparr>dtype = D_object, cells = [VNone, VStr ''x'']\<rparr>
     = Inr \<lparr>dtype = D_bool, cells = [VBool False, VBool True]\<rparr>"
  by (simp add: cast_column_def)

text \<open>
  C8, as amended. A boolean cast that returns maps every NaN cell to \<open>True\<close> and every
  \<open>None\<close> cell to \<open>False\<close>, keeps the number of cells, and leaves no null in the
  column; it returns for every column that holds no \<open>pd.NA\<close>, as the columns of a
  flattened document do.
\<close>

theorem boolean_cast_of_nulls:
  "(VNA \<notin> set (cells c) \<longrightarrow> (\<exists>c'. cast_column pd ''boolean'' c = Inr c'))
   \<and> (cast_column pd ''boolean'' c = Inr c' \<longrightarrow>
        length (cells c') = length (cells c)
      \<and> (\<forall>i < length (cells c).
            (cells c ! i = VNaN \<longrightarrow> cells c' ! i = VBool True)
          \<and> (cells c ! i = VNone \<longrightarrow> cells c' ! i = VBool False))
      \<and> (\<forall>b \<in> set (cells c'). \<not> isna b))"
proof (intro conjI impI)
  assume "VNA \<notin> set (cells c)"
  then obtain bs where "astype_bool (cells c) = Inr bs"
    using astype_bool_returns by blast
  then show "\<exists>c'. cast_column pd ''boolean'' c = Inr c'"
    by (simp add: cast_boolean_Inr)
next
  assume "cast_column pd ''boolean'' c = Inr c'"
  then obtain bs where bs: "astype_bool (cells c) = Inr bs" and c': "cells c' = bs"
    by (auto simp: cast_boolean_Inr)
  show "length (cells c') = length (cells c)"
    using bs c' by (simp add: astype_bool_length)
  have "cells c' ! i = VBool True" if "i < length (cells c)" "cells c ! i = VNaN" for i
    using astype_bool_nth [OF bs that(1), of True] that(2) c' by simp
  moreover have "cells c' ! i = VBool False" if "i < length (cells c)" "cells c ! i = VNone" for i
    using astype_bool_nth [OF bs that(1), of False] that(2) c' by simp
  ultimately show "\<forall>i < length (cells c).
      (cells c ! i = VNaN \<longrightarrow> cells c' ! i = VBool True)
    \<and> (cells c ! i = VNone \<longrightarrow> cells c' ! i = VBool False)"
    by blast
  show "\<forall>b \<in> set (cells c'). \<not> isna b"
  proof
    fix b assume "b \<in> set (cells c')"
    with bs c' obtain t where "b = VBool t"
      using astype_bool_cells by blast
    then show "\<not> isna b" by simp
  qed
qed

theorem boolean_cast_of_nulls_witness:
  "VNA \<notin> set (cells \<lparr>dtype = D_object, cells = [VNaN, VNone, VStr ''x'']\<rparr>)
   \<and> cast_column example_pandas ''boolean'' \<lparr>dtype = D_object, cells = [VNaN, VNone, VStr ''x'']\<rparr>
     = Inr \<lparr>dtype = D_bool, cells = [VBool True, VBool False, VBool True]\<rparr>
   \<and> list_all (\<lambda>b. \<not> isna b) (cells \<lparr>dtype = D_bool, cells = [VBool True, VBool False, VBool True]\<rparr>)"
proof -
  have run: "cast_column example_pandas ''boolean'' \<lparr>dtype = D_object, cells = [VNaN, VNone, VStr ''x'']\<rparr>
     = Inr \<lparr>dtype = D_bool, cells = [VBool True, VBool False, VBool True]\<rparr>"
    by (simp add: cast_column_def)
  have nona: "VNA \<notin> set (cells \<lparr>dtype = D_object, cells = [VNaN, VNone, VStr ''x'']\<rparr>)"
    by simp
  from boolean_cast_of_nulls [of "\<lparr>dtype = D_object, cells = [VNaN, VNone, VStr ''x'']\<rparr>"
      example_pandas "\<lparr>dtype = D_bool, cells = [VBool True, VBool False, VBool True]\<rparr>"] run nona
  show ?thesis unfolding list_all_iff by blast
qed

text \<open>
  C9. A string cast always returns; it keeps the number of cells and every cell of the new
  column is a string, so none is null: a \<open>None\<close> cell becomes the text \<open>None\<close> and a NaN
  cell the text \<open>nan\<close>.
\<close>

theorem string_cast_never_null:
  "(\<exists>c'. cast_column pd ''string'' c = Inr c')
   \<and> (cast_column pd ''string'' c = Inr c' \<longrightarrow>
        length (cells c') = length (cells c)
      \<and> (\<forall>v \<in> set (cells c'). \<exists>s. v = VStr s)
      \<and> (\<forall>v \<in> set (cells c'). \<not> isna v)
      \<and> (\<forall>i < length (cells c).
            (cells c ! i = VNone \<longrightarrow> cells c' ! i = VStr ''None'')
          \<and> (cells c ! i = VNaN \<longrightarrow> cells c' ! i = VStr ''nan'')))"
proof (intro conjI impI)
  show "\<exists>c'. cast_column pd ''string'' c = Inr c'"
    by (simp add: cast_string_eq)
next
  assume "cast_column pd ''string'' c = Inr c'"
  then have c': "cells c' = map (str_cell pd) (cells c)"
    by (auto simp: cast_string_eq)
  show "length (cells c') = length (cells c)"
    by (simp add: c')
  show strs: "\<forall>v \<in> set (cells c'). \<exists>s. v = VStr s"
    using str_cell_is_str by (auto simp: c')
  show "\<forall>v \<in> set (cells c'). \<not> isna v"
  proof
    fix v assume "v \<in> set (cells c')"
    with strs obtain s where "v = VStr s" by blast
    then show "\<not> isna v" by simp
  qed
  show "\<forall>i < length (cells c).
          (cells c ! i = VNone \<longrightarrow> cells c' ! i = VStr ''None'')
        \<and> (cells c ! i = VNaN \<longrightarrow> cells c' ! i = VStr ''nan'')"
    by (simp add: c')
qed

theorem string_cast_never_null_witness:
  "cast_column example_pandas ''string'' \<lparr>dtype = D_object, cells = [VStr ''a'', VNone, VNaN]\<rparr>
     = Inr \<lparr>dtype = D_object, cells = [VStr ''a'', VStr ''None'', VStr ''nan'']\<rparr>
   \<and> list_all (\<lambda>v. \<not> isna v) (cells \<lparr>dtype = D_object, cells = [VStr ''a'', VStr ''None'', VStr ''nan'']\<rparr>)"
proof -
  have run: "cast_column example_pandas ''string'' \<lparr>dtype = D_object, cells = [VStr ''a'', VNone, VNaN]\<rparr>
     = Inr \<lparr>dtype = D_object, cells = [VStr ''a'', VStr ''None'', VStr ''nan'']\<rparr>"
    by (simp add: cast_column_def astype_str_def)
  from string_cast_never_null [of example_pandas
      "\<lparr>dtype = D_object, cells = [VStr ''a'', VNone, VNaN]\<rparr>"
      "\<lparr>dtype = D_object, cells = [VStr ''a'', VStr ''None'', VStr ''nan'']\<rparr>"] run
  show ?thesis unfolding list_all_iff by blast
qed

section \<open>The caster: frame\<close>

text \<open>
  C6. Whether the caster returns or raises, the frame it leaves has the column names of
  the frame it was given, in the same order, so no column is added; and every column
  whose name is not in the schema is the column it was, dtype and cells.
\<close>

theorem cast_frame:
  assumes "cast_dataframe_to_glue_schema pd df glue_schema = (df', err)"
  shows "map fst df' = map fst df
     \<and> (\<forall>i < length df. fst (df ! i) \<notin> fst ` set glue_schema \<longrightarrow> df' ! i = df ! i)"
  using assms
proof (induction glue_schema arbitrary: df)
  case Nil
  then show ?case by simp
next
  case (Cons item glue_schema)
  obtain column ty where item: "item = (column, ty)" by (cases item)
  show ?case
  proof (cases "map_of df column")
    case None
    with Cons.prems item
    have "cast_dataframe_to_glue_schema pd df glue_schema = (df', err)" by simp
    from Cons.IH [OF this] show ?thesis by (simp add: item)
  next
    case (Some c)
    show ?thesis
    proof (cases "cast_column pd ty c")
      case (Inl e)
      with Cons.prems item Some have "df' = df" by simp
      then show ?thesis by simp
    next
      case (Inr c1)
      let ?df1 = "AList.update column c1 df"
      from Cons.prems item Some Inr
      have "cast_dataframe_to_glue_schema pd ?df1 glue_schema = (df', err)" by simp
      from Cons.IH [OF this]
      have keys: "map fst df' = map fst ?df1"
        and rest: "\<forall>i < length ?df1. fst (?df1 ! i) \<notin> fst ` set glue_schema \<longrightarrow> df' ! i = ?df1 ! i"
        by simp_all
      have k1: "map fst ?df1 = map fst df"
        using Some by (rule update_present_keys)
      then have len: "length ?df1 = length df"
        by (metis length_map)
      have "df' ! i = df ! i"
        if "i < length df" and "fst (df ! i) \<notin> fst ` set (item # glue_schema)" for i
      proof -
        from that(2) have ne: "fst (df ! i) \<noteq> column" and out: "fst (df ! i) \<notin> fst ` set glue_schema"
          by (auto simp: item)
        have same: "?df1 ! i = df ! i"
          using that(1) ne by (rule update_nth_other)
        with rest that(1) len out show ?thesis by simp
      qed
      with keys k1 show ?thesis by simp
    qed
  qed
qed


theorem cast_frame_witness:
  "cast_dataframe_to_glue_schema example_pandas
     [(''id'', \<lparr>dtype = D_object, cells = [VStr ''7'', VNone]\<rparr>),
      (''title'', \<lparr>dtype = D_object, cells = [VStr ''a'', VStr ''b'']\<rparr>)]
     [(''id'', ''string''), (''views'', ''bigint'')]
   = ([(''id'', \<lparr>dtype = D_object, cells = [VStr ''7'', VStr ''None'']\<rparr>),
       (''title'', \<lparr>dtype = D_object, cells = [VStr ''a'', VStr ''b'']\<rparr>)], None)
   \<and> map fst [(''id'', \<lparr>dtype = D_object, cells = [VStr ''7'', VStr ''None'']\<rparr>),
               (''title'', \<lparr>dtype = D_object, cells = [VStr ''a'', VStr ''b'']\<rparr>)]
     = [''id'', ''title'']
   \<and> [(''id'', \<lparr>dtype = D_object, cells = [VStr ''7'', VStr ''None'']\<rparr>),
       (''title'', \<lparr>dtype = D_object, cells = [VStr ''a'', VStr ''b'']\<rparr>)] ! 1
     = (''title'', \<lparr>dtype = D_object, cells = [VStr ''a'', VStr ''b'']\<rparr>)"
proof -
  have run: "cast_dataframe_to_glue_schema example_pandas
     [(''id'', \<lparr>dtype = D_object, cells = [VStr ''7'', VNone]\<rparr>),
      (''title'', \<lparr>dtype = D_object, cells = [VStr ''a'', VStr ''b'']\<rparr>)]
     [(''id'', ''string''), (''views'', ''bigint'')]
   = ([(''id'', \<lparr>dtype = D_object, cells = [VStr ''7'', VStr ''None'']\<rparr>),
       (''title'', \<lparr>dtype = D_object, cells = [VStr ''a'', VStr ''b'']\<rparr>)], None)"
    by (simp add: cast_column_def astype_str_def)
  from cast_frame [OF run] run show ?thesis by simp
qed

section \<open>The destination key\<close>

text \<open>
  C2. The destination key is not the source key with only its extension replaced:
  \<^verbatim>\<open>key.replace('.json', '.parquet')\<close> replaces every occurrence, so the key
  \<open>raw.json/data.json\<close> is written to \<open>raw.parquet/data.parquet\<close>.
\<close>

theorem destination_key_replaces_every_json:
  "str_replace ''raw.json/data.json'' ''.json'' ''.parquet'' = ''raw.parquet/data.parquet''"
  by (simp add: str_replace_def)

section \<open>Properties of the store and catalog operations\<close>

lemmas handler_defs =
  lambda_handler_def process_object_def get_object_def put_object_def resolve_schema_def
  get_glue_table_schema_def create_glue_table_if_not_exists_def get_table_def create_table_def
  print_def infer_glue_schema_from_dataframe_def infer_glue_type_def str_replace_def
  dict_of_columns_def table_input_of_def Let_def

lemmas example_defs =
  example_env_def example_world_def example_record_def example_frame_def example_pandas_def
  registered_world_def racing_env_def other_invocation_def

lemma print_fields [simp]:
  "objects (print l w) = objects w" "buckets (print l w) = buckets w"
  "glue (print l w) = glue w" "stdout (print l w) = stdout w @ [l]"
  by (simp_all add: print_def)

lemma get_glue_table_schema_store:
  "get_glue_table_schema w d t = (w1, r) \<Longrightarrow>
     objects w1 = objects w \<and> buckets w1 = buckets w \<and> glue w1 = glue w"
  by (auto simp: get_glue_table_schema_def split: sum.splits if_splits)


lemma create_glue_table_if_not_exists_store:
  "create_glue_table_if_not_exists others w d t loc sch = (w1, r) \<Longrightarrow>
     objects w1 = objects w \<and> buckets w1 = buckets w"
  by (auto simp: create_glue_table_if_not_exists_def Let_def split: sum.splits if_splits)

lemma create_glue_table_if_not_exists_registers:
  assumes "get_table (glue w) d t = Inl EntityNotFoundException"
      and "create_glue_table_if_not_exists others w d t loc sch = (w1, Inr u)"
  shows "get_table (glue w1) d t = Inr (table_input_of t loc sch)"
  using assms
  by (auto simp: create_glue_table_if_not_exists_def create_table_def get_table_def
      table_input_of_def Let_def split: sum.splits if_splits option.splits)

lemma resolve_schema_store:
  assumes "resolve_schema env w df = (w1, r)"
  shows "objects w1 = objects w \<and> buckets w1 = buckets w"
  using assms
  by (auto simp: resolve_schema_def Let_def
      split: sum.splits prod.splits if_splits option.splits
      dest!: get_glue_table_schema_store create_glue_table_if_not_exists_store)

lemma resolve_schema_found:
  assumes "get_table (glue w) (os_input_glue_catalog_db_name env)
             (os_input_glue_catalog_table_name env) = Inr ti"
  shows "glue (fst (resolve_schema env w df_step_1)) = glue w \<and>
         snd (resolve_schema env w df_step_1) =
           (case cast_dataframe_to_glue_schema (lib env) df_step_1
                   (dict_of_columns (Columns (StorageDescriptor ti))) of
              (df, None) \<Rightarrow> Inr df
            | (df, Some e) \<Rightarrow> Inl e)"
  using assms
  by (auto simp: resolve_schema_def get_glue_table_schema_def
      split: sum.splits prod.splits option.splits)

lemma resolve_schema_not_found:
  assumes "get_table (glue w) (os_input_glue_catalog_db_name env)
             (os_input_glue_catalog_table_name env) = Inl e"
  shows "snd (resolve_schema env w df_step_1) =
           (case snd (create_glue_table_if_not_exists (concurrent env)
                        (fst (get_glue_table_schema w (os_input_glue_catalog_db_name env)
                                (os_input_glue_catalog_table_name env)))
                        (os_input_glue_catalog_db_name env)
                        (os_input_glue_catalog_table_name env)
                        (''s3://'' @ os_input_s3_cleansed_layer env @ ''/'')
                        (infer_glue_schema_from_dataframe df_step_1)) of
              Inl e' \<Rightarrow> Inl e'
            | Inr u \<Rightarrow> Inr df_step_1)"
proof -
  from assms have "e = EntityNotFoundException"
    by (auto simp: get_table_def split: option.splits)
  with assms show ?thesis
    by (auto simp: resolve_schema_def get_glue_table_schema_def Let_def
        split: sum.splits prod.splits)
qed

lemma resolve_schema_registers:
  assumes "get_table (glue w) (os_input_glue_catalog_db_name env)
             (os_input_glue_catalog_table_name env) = Inl e"
      and "resolve_schema env w df_step_1 = (w1, Inr df)"
  shows "df = df_step_1 \<and>
         get_table (glue w1) (os_input_glue_catalog_db_name env)
           (os_input_glue_catalog_table_name env) =
           Inr (table_input_of (os_input_glue_catalog_table_name env)
                  (''s3://'' @ os_input_s3_cleansed_layer env @ ''/'')
                  (infer_glue_schema_from_dataframe df_step_1))"
proof -
  from assms(1) have e: "e = EntityNotFoundException"
    by (auto simp: get_table_def split: option.splits)
  let ?w0 = "print (Msg (''Table '' @ os_input_glue_catalog_table_name env @
                '' not found in database '' @ os_input_glue_catalog_db_name env @ ''.'')) w"
  have g: "get_table (glue ?w0) (os_input_glue_catalog_db_name env)
             (os_input_glue_catalog_table_name env) = Inl EntityNotFoundException"
    using assms(1) e by simp
  from assms e obtain u where
    c: "create_glue_table_if_not_exists (concurrent env) ?w0
          (os_input_glue_catalog_db_name env) (os_input_glue_catalog_table_name env)
          (''s3://'' @ os_input_s3_cleansed_layer env @ ''/'')
          (infer_glue_schema_from_dataframe df_step_1) = (w1, Inr u)" and d: "df = df_step_1"
    by (auto simp: resolve_schema_def get_glue_table_schema_def Let_def
        split: sum.splits prod.splits)
  from create_glue_table_if_not_exists_registers [OF g c] d show ?thesis by simp
qed



lemma process_object_success:
  assumes "process_object env w bucket key = (w', Inr result)"
  shows "\<exists>content df_step_1 w1 df parquet_buffer.
           get_object w bucket key = Inr content \<and>
           read_items env content = Inr df_step_1 \<and>
           resolve_schema env w df_step_1 = (w1, Inr df) \<and>
           to_parquet env df = Inr parquet_buffer \<and>
           w' = w1\<lparr>objects := (objects w1)((os_input_s3_cleansed_layer env,
                     str_replace key ''.json'' ''.parquet'') \<mapsto> parquet_buffer)\<rparr> \<and>
           result = \<lparr>statusCode = 200,
                      body = ''File '' @ key @ '' processed and saved as Parquet.''\<rparr>"
  using assms
  by (auto simp: process_object_def put_object_def split: sum.splits prod.splits if_splits)

lemma process_object_failure:
  assumes "process_object env w bucket key = (w', Inl e)"
  shows "objects w' = objects w"
  using assms
  by (auto simp: process_object_def put_object_def split: sum.splits prod.splits if_splits
      dest!: resolve_schema_store)

lemma process_object_raises:
  "get_object w bucket key = Inl e \<Longrightarrow> snd (process_object env w bucket key) = Inl e"
  "get_object w bucket key = Inr content \<Longrightarrow> read_items env content = Inl e \<Longrightarrow>
     snd (process_object env w bucket key) = Inl e"
  "get_object w bucket key = Inr content \<Longrightarrow> read_items env content = Inr df_step_1 \<Longrightarrow>
     snd (resolve_schema env w df_step_1) = Inl e \<Longrightarrow>
     snd (process_object env w bucket key) = Inl e"
  "get_object w bucket key = Inr content \<Longrightarrow> read_items env content = Inr df_step_1 \<Longrightarrow>
     resolve_schema env w df_step_1 = (w1, Inr df) \<Longrightarrow> to_parquet env df = Inl e \<Longrightarrow>
     snd (process_object env w bucket key) = Inl e"
  "get_object w bucket key = Inr content \<Longrightarrow> read_items env content = Inr df_step_1 \<Longrightarrow>
     resolve_schema env w df_step_1 = (w1, Inr df) \<Longrightarrow>
     to_parquet env df = Inr parquet_buffer \<Longrightarrow>
     snd (put_object w1 (os_input_s3_cleansed_layer env)
            (str_replace key ''.json'' ''.parquet'') parquet_buffer) = Inl e \<Longrightarrow>
     snd (process_object env w bucket key) = Inl e"
  by (auto simp: process_object_def split: sum.splits prod.splits)


lemma lambda_handler_result:
  "snd (lambda_handler env (r # rest) w) =
     snd (process_object env w (bucket_name r) (unquote_plus env (object_key r)))"
  by (simp add: lambda_handler_def Let_def split: prod.splits sum.splits)


lemma lambda_handler_failure:
  assumes "lambda_handler env (r # rest) w = (w', Inl e)"
  shows "\<exists>w1. process_object env w (bucket_name r) (unquote_plus env (object_key r)) = (w1, Inl e) \<and>
           w' = print (Msg (''Error processing object '' @ unquote_plus env (object_key r) @
                           '' from bucket '' @ bucket_name r @ ''.'')) (print (Exc e) w1)"
  using assms by (auto simp: lambda_handler_def Let_def split: prod.splits sum.splits)





lemma lambda_handler_raises_logged:
  assumes "lambda_handler env (r # rest) w = (w', Inl e)"
  shows "objects w' = objects w \<and>
         (\<exists>pre. stdout w' = pre @ [Exc e,
            Msg (''Error processing object '' @ unquote_plus env (object_key r) @
                 '' from bucket '' @ bucket_name r @ ''.'')])"
proof -
  from lambda_handler_failure [OF assms] obtain w1 where
    p: "process_object env w (bucket_name r) (unquote_plus env (object_key r)) = (w1, Inl e)" and
    w': "w' = print (Msg (''Error processing object '' @ unquote_plus env (object_key r) @
                       '' from bucket '' @ bucket_name r @ ''.'')) (print (Exc e) w1)"
    by (elim exE conjE)
  from process_object_failure [OF p] w' have "objects w' = objects w"
    by simp
  moreover from w' have "stdout w' = stdout w1 @ [Exc e,
            Msg (''Error processing object '' @ unquote_plus env (object_key r) @
                 '' from bucket '' @ bucket_name r @ ''.'')]"
    by simp
  ultimately show ?thesis by blast
qed


lemma resolve_schema_registrar_raises:
  assumes "get_table (glue w) (os_input_glue_catalog_db_name env)
             (os_input_glue_catalog_table_name env) = Inl EntityNotFoundException \<and>
           snd (create_glue_table_if_not_exists (concurrent env)
                  (fst (get_glue_table_schema w (os_input_glue_catalog_db_name env)
                          (os_input_glue_catalog_table_name env)))
                  (os_input_glue_catalog_db_name env)
                  (os_input_glue_catalog_table_name env)
                  (''s3://'' @ os_input_s3_cleansed_layer env @ ''/'')
                  (infer_glue_schema_from_dataframe df_step_1)) = Inl e"
  shows "snd (resolve_schema env w df_step_1) = Inl e"
  using assms resolve_schema_not_found [of w env EntityNotFoundException df_step_1] by simp

lemma resolve_schema_cast:
  assumes "get_table (glue w) (os_input_glue_catalog_db_name env)
             (os_input_glue_catalog_table_name env) = Inr ti"
      and "resolve_schema env w df_step_1 = (w1, Inr df)"
  shows "cast_dataframe_to_glue_schema (lib env) df_step_1
           (dict_of_columns (Columns (StorageDescriptor ti))) = (df, None) \<and>
         glue w1 = glue w"
proof -
  from resolve_schema_found [OF assms(1), of df_step_1] assms(2)
  have g: "glue w1 = glue w"
    and c: "(case cast_dataframe_to_glue_schema (lib env) df_step_1
                   (dict_of_columns (Columns (StorageDescriptor ti))) of
              (df, None) \<Rightarrow> Inr df
            | (df, Some e) \<Rightarrow> Inl e) = (Inr df :: error + dataframe)"
    by simp_all
  from c have "cast_dataframe_to_glue_schema (lib env) df_step_1
           (dict_of_columns (Columns (StorageDescriptor ti))) = (df, None)"
    by (cases "cast_dataframe_to_glue_schema (lib env) df_step_1
           (dict_of_columns (Columns (StorageDescriptor ti)))")
       (simp split: option.splits)
  with g show ?thesis by simp
qed

lemma create_glue_table_if_not_exists_race:
  assumes "get_table (glue w) d t = Inl EntityNotFoundException"
      and "get_table (others (glue w)) d t = Inr ti"
  shows "snd (create_glue_table_if_not_exists others w d t loc sch) = Inl AlreadyExistsException"
  using assms
  by (auto simp: create_glue_table_if_not_exists_def get_table_def create_table_def
      table_input_of_def Let_def split: option.splits)

section \<open>The handler: the record that is processed\<close>



section \<open>The handler: all or nothing at the destination\<close>



section \<open>The registrar\<close>

text \<open>
  Without interference between the existence check and the create call, registering
  twice with the same arguments is idempotent: the second call leaves the catalog as the
  first left it and has the outcome of the first, which is success whenever the database
  exists.
\<close>

lemma registration_without_interference:
  "let (w1, r1) = create_glue_table_if_not_exists (\<lambda>cat. cat) w d t loc sch;
       (w2, r2) = create_glue_table_if_not_exists (\<lambda>cat. cat) w1 d t loc sch
   in glue w2 = glue w1 \<and> r2 = r1 \<and> (d \<in> dom (glue w) \<longrightarrow> r2 = Inr ())"
  by (auto simp: create_glue_table_if_not_exists_def get_table_def create_table_def
      table_input_of_def Let_def split: option.splits)

text \<open>
  C5. Registration is not idempotent under a race. When the table is absent at the
  registrar's existence check and present once another invocation has acted, the create
  call raises \<open>AlreadyExistsException\<close>; the registrar has no handler for it, so the
  invocation that has read and flattened its document fails with that exception and
  writes no artifact.
\<close>

theorem registration_race_fails_invocation:
  fixes env :: "'b env" and w :: "'b world"
  assumes absent: "get_table (glue w) (os_input_glue_catalog_db_name env)
                     (os_input_glue_catalog_table_name env) = Inl EntityNotFoundException"
      and raced: "get_table (concurrent env (glue w)) (os_input_glue_catalog_db_name env)
                    (os_input_glue_catalog_table_name env) = Inr ti"
      and fetched: "get_object w (bucket_name r) (unquote_plus env (object_key r)) = Inr content"
      and parsed: "read_items env content = Inr df_step_1"
  shows "snd (create_glue_table_if_not_exists (concurrent env) w
                (os_input_glue_catalog_db_name env) (os_input_glue_catalog_table_name env)
                (''s3://'' @ os_input_s3_cleansed_layer env @ ''/'')
                (infer_glue_schema_from_dataframe df_step_1)) = Inl AlreadyExistsException \<and>
         snd (lambda_handler env (r # rest) w) = Inl AlreadyExistsException \<and>
         objects (fst (lambda_handler env (r # rest) w)) = objects w"
proof -
  let ?db = "os_input_glue_catalog_db_name env"
  let ?tbl = "os_input_glue_catalog_table_name env"
  let ?w0 = "fst (get_glue_table_schema w ?db ?tbl)"
  have g: "glue ?w0 = glue w"
    using get_glue_table_schema_store [OF prod.collapse [symmetric]] by blast
  have reg: "snd (create_glue_table_if_not_exists (concurrent env) w ?db ?tbl
                (''s3://'' @ os_input_s3_cleansed_layer env @ ''/'')
                (infer_glue_schema_from_dataframe df_step_1)) = Inl AlreadyExistsException"
    using absent raced by (rule create_glue_table_if_not_exists_race)
  have "snd (create_glue_table_if_not_exists (concurrent env) ?w0 ?db ?tbl
                (''s3://'' @ os_input_s3_cleansed_layer env @ ''/'')
                (infer_glue_schema_from_dataframe df_step_1)) = Inl AlreadyExistsException"
    using absent raced unfolding g [symmetric] by (rule create_glue_table_if_not_exists_race)
  with absent have "snd (resolve_schema env w df_step_1) = Inl AlreadyExistsException"
    by (intro resolve_schema_registrar_raises conjI)
  with fetched parsed
  have p: "snd (process_object env w (bucket_name r) (unquote_plus env (object_key r))) =
             Inl AlreadyExistsException"
    by (rule process_object_raises(3))
  have res: "snd (lambda_handler env (r # rest) w) = Inl AlreadyExistsException"
    unfolding lambda_handler_result by (rule p)
  obtain w' where run: "lambda_handler env (r # rest) w = (w', Inl AlreadyExistsException)"
    using res by (cases "lambda_handler env (r # rest) w") simp
  from lambda_handler_raises_logged [OF run] run
  have "objects (fst (lambda_handler env (r # rest) w)) = objects w"
    by simp
  with reg res show ?thesis by blast
qed

text \<open>
  C5 on the example: the table is absent at the check, another invocation registers the
  same table with the same schema and location, and the invocation fails with
  \<open>AlreadyExistsException\<close>, the store unchanged.
\<close>

theorem registration_race_fails_invocation_witness:
  "get_table (glue example_world) ''db'' ''stats'' = Inl EntityNotFoundException \<and>
   get_table (concurrent racing_env (glue example_world)) ''db'' ''stats'' =
     Inr (table_input_of ''stats'' ''s3://clean/'' [(''id'', ''int''), (''title'', ''string'')]) \<and>
   snd (create_glue_table_if_not_exists (concurrent racing_env) example_world
          ''db'' ''stats'' ''s3://clean/'' [(''id'', ''int''), (''title'', ''string'')]) =
     Inl AlreadyExistsException \<and>
   snd (lambda_handler racing_env [example_record] example_world) =
     Inl AlreadyExistsException \<and>
   objects (fst (lambda_handler racing_env [example_record] example_world)) =
     objects example_world"
proof -
  have a: "get_table (glue example_world) (os_input_glue_catalog_db_name racing_env)
             (os_input_glue_catalog_table_name racing_env) = Inl EntityNotFoundException"
    by (simp add: get_table_def example_defs)
  have b: "get_table (concurrent racing_env (glue example_world))
             (os_input_glue_catalog_db_name racing_env)
             (os_input_glue_catalog_table_name racing_env) =
           Inr (table_input_of ''stats'' ''s3://clean/'' [(''id'', ''int''), (''title'', ''string'')])"
    by (simp add: get_table_def create_table_def table_input_of_def example_defs
        infer_glue_schema_from_dataframe_def infer_glue_type_def)
  have c: "get_object example_world (bucket_name example_record)
             (unquote_plus racing_env (object_key example_record)) = Inr example_frame"
    by (simp add: get_object_def example_defs)
  have d: "read_items racing_env example_frame = Inr example_frame"
    by (simp add: example_defs)
  have names: "os_input_glue_catalog_db_name racing_env = ''db''"
    "os_input_glue_catalog_table_name racing_env = ''stats''"
    "''s3://'' @ os_input_s3_cleansed_layer racing_env @ ''/'' = ''s3://clean/''"
    "infer_glue_schema_from_dataframe example_frame = [(''id'', ''int''), (''title'', ''string'')]"
    by (simp_all add: example_defs infer_glue_schema_from_dataframe_def infer_glue_type_def)
  from registration_race_fails_invocation [OF a b c d, of "[]"] a b
  show ?thesis unfolding names by blast
qed

section \<open>The handler: which batch is serialised\<close>

text \<open>
  C1, as the handler behaves. When an object was read and flattened and the run
  succeeds, then, if the table is in the catalog, the artifact at the destination key is
  the serialisation of the cast batch, cast with the fetched schema and without a raise,
  and the catalog is unchanged; if the table is not in the catalog, the artifact is the
  serialisation of the flattened batch as it was read, which is not cast, and the table
  is in the catalog afterwards, registered with the schema inferred from that batch and
  the location of the cleansed bucket.
\<close>

theorem serialized_batch:
  assumes fetched: "get_object w bucket key = Inr content"
      and parsed: "read_items env content = Inr df_step_1"
      and run: "process_object env w bucket key = (w', Inr result)"
  shows "case get_table (glue w) (os_input_glue_catalog_db_name env)
                (os_input_glue_catalog_table_name env) of
           Inr ti \<Rightarrow>
             (\<exists>df parquet_buffer.
                cast_dataframe_to_glue_schema (lib env) df_step_1
                  (dict_of_columns (Columns (StorageDescriptor ti))) = (df, None) \<and>
                to_parquet env df = Inr parquet_buffer \<and>
                objects w' (os_input_s3_cleansed_layer env,
                            str_replace key ''.json'' ''.parquet'') = Some parquet_buffer) \<and>
             glue w' = glue w
         | Inl e \<Rightarrow>
             (\<exists>parquet_buffer.
                to_parquet env df_step_1 = Inr parquet_buffer \<and>
                objects w' (os_input_s3_cleansed_layer env,
                            str_replace key ''.json'' ''.parquet'') = Some parquet_buffer) \<and>
             get_table (glue w') (os_input_glue_catalog_db_name env)
               (os_input_glue_catalog_table_name env) =
               Inr (table_input_of (os_input_glue_catalog_table_name env)
                      (''s3://'' @ os_input_s3_cleansed_layer env @ ''/'')
                      (infer_glue_schema_from_dataframe df_step_1))"
proof -
  from process_object_success [OF run] fetched parsed
  obtain w1 df parquet_buffer where
    rs: "resolve_schema env w df_step_1 = (w1, Inr df)" and
    tp: "to_parquet env df = Inr parquet_buffer" and
    w': "w' = w1\<lparr>objects := (objects w1)((os_input_s3_cleansed_layer env,
                 str_replace key ''.json'' ''.parquet'') \<mapsto> parquet_buffer)\<rparr>"
    by (elim exE conjE) simp
  from w' have obj: "objects w' (os_input_s3_cleansed_layer env,
                       str_replace key ''.json'' ''.parquet'') = Some parquet_buffer"
    and gl: "glue w' = glue w1"
    by simp_all
  show ?thesis
  proof (cases "get_table (glue w) (os_input_glue_catalog_db_name env)
                  (os_input_glue_catalog_table_name env)")
    case (Inr ti)
    from resolve_schema_cast [OF Inr rs] tp obj gl show ?thesis
      unfolding Inr by auto
  next
    case (Inl e)
    from resolve_schema_registers [OF Inl rs] tp obj gl show ?thesis
      unfolding Inl by auto
  qed
qed

text \<open>
  C1 on the examples. With the table registered, the artifact is the batch cast with the
  fetched schema, in which the \<open>None\<close> of the column \<open>title\<close> has become the text
  \<open>None\<close>, and the catalog is unchanged. With the table absent, the artifact is the
  batch as it was read and the table is registered with the inferred schema.
\<close>

theorem serialized_batch_witness:
  "get_table (glue registered_world) ''db'' ''stats'' =
     Inr (table_input_of ''stats'' ''s3://clean/'' [(''title'', ''string'')]) \<and>
   objects (fst (process_object example_env registered_world ''raw'' ''data.json''))
     (''clean'', ''data.parquet'') =
     Some [(''id'', \<lparr>dtype = D_int64, cells = [VInt 1, VInt 2]\<rparr>),
           (''title'', \<lparr>dtype = D_object, cells = [VStr ''x'', VStr ''None'']\<rparr>)] \<and>
   glue (fst (process_object example_env registered_world ''raw'' ''data.json'')) =
     glue registered_world \<and>
   get_table (glue example_world) ''db'' ''stats'' = Inl EntityNotFoundException \<and>
   objects (fst (process_object example_env example_world ''raw'' ''data.json''))
     (''clean'', ''data.parquet'') = Some example_frame \<and>
   get_table (glue (fst (process_object example_env example_world ''raw'' ''data.json'')))
     ''db'' ''stats'' =
     Inr (table_input_of ''stats'' ''s3://clean/'' [(''id'', ''int''), (''title'', ''string'')])"
proof -
  let ?found = "process_object example_env registered_world ''raw'' ''data.json''"
  let ?absent = "process_object example_env example_world ''raw'' ''data.json''"
  let ?ok = "Inr \<lparr>statusCode = 200, body = ''File data.json processed and saved as Parquet.''\<rparr>
               :: error + response"
  let ?out = "[(''id'', \<lparr>dtype = D_int64, cells = [VInt 1, VInt 2]\<rparr>),
           (''title'', \<lparr>dtype = D_object, cells = [VStr ''x'', VStr ''None'']\<rparr>)]"
  have names: "os_input_glue_catalog_db_name example_env = ''db''"
    "os_input_glue_catalog_table_name example_env = ''stats''"
    "os_input_s3_cleansed_layer example_env = ''clean''"
    "lib example_env = example_pandas"
    "to_parquet example_env = Inr"
    "str_replace ''data.json'' ''.json'' ''.parquet'' = ''data.parquet''"
    "infer_glue_schema_from_dataframe example_frame = [(''id'', ''int''), (''title'', ''string'')]"
    by (simp_all add: example_env_def example_frame_def str_replace_def
        infer_glue_schema_from_dataframe_def infer_glue_type_def)
  have b: "read_items example_env example_frame = Inr example_frame"
    by (simp add: example_env_def)

  have a1: "get_object registered_world ''raw'' ''data.json'' = Inr example_frame"
    by (simp add: get_object_def registered_world_def example_world_def)
  have "snd ?found = ?ok"
    by (simp add: handler_defs example_defs cast_column_def astype_str_def)
  then have c1: "?found = (fst ?found, ?ok)"
    by (simp add: prod_eq_iff)
  have t1: "get_table (glue registered_world) ''db'' ''stats'' =
     Inr (table_input_of ''stats'' ''s3://clean/'' [(''title'', ''string'')])"
    by (simp add: get_table_def registered_world_def example_world_def)
  have cast: "cast_dataframe_to_glue_schema example_pandas example_frame
      (dict_of_columns (Columns (StorageDescriptor
         (table_input_of ''stats'' ''s3://clean/'' [(''title'', ''string'')])))) = (?out, None)"
    by (simp add: dict_of_columns_def table_input_of_def example_frame_def example_pandas_def
        cast_column_def astype_str_def)
  from serialized_batch [OF a1 b c1]
  have found: "objects (fst ?found) (''clean'', ''data.parquet'') = Some ?out \<and>
               glue (fst ?found) = glue registered_world"
    unfolding names t1 sum.case cast by auto

  have a2: "get_object example_world ''raw'' ''data.json'' = Inr example_frame"
    by (simp add: get_object_def example_world_def)
  have "snd ?absent = ?ok"
    by (simp add: handler_defs example_defs)
  then have c2: "?absent = (fst ?absent, ?ok)"
    by (simp add: prod_eq_iff)
  have t2: "get_table (glue example_world) ''db'' ''stats'' = Inl EntityNotFoundException"
    by (simp add: get_table_def example_world_def)
  from serialized_batch [OF a2 b c2]
  have absent: "objects (fst ?absent) (''clean'', ''data.parquet'') = Some example_frame \<and>
                get_table (glue (fst ?absent)) ''db'' ''stats'' =
                  Inr (table_input_of ''stats'' ''s3://clean/''
                         [(''id'', ''int''), (''title'', ''string'')])"
    unfolding names t2 sum.case by auto
  from t1 found t2 absent show ?thesis by blast
qed

text \<open>
  C1 fails as stated: with the table absent, the schema inferred for the example batch
  would cast the \<open>None\<close> of the column \<open>title\<close> to the text \<open>None\<close>, and the
  artifact that is written holds the batch with the \<open>None\<close> still in it.
\<close>

theorem uncast_batch_counterexample:
  "get_table (glue example_world) ''db'' ''stats'' = Inl EntityNotFoundException \<and>
   infer_glue_schema_from_dataframe example_frame = [(''id'', ''int''), (''title'', ''string'')] \<and>
   cast_dataframe_to_glue_schema example_pandas example_frame
     (dict_of_columns (infer_glue_schema_from_dataframe example_frame)) =
     ([(''id'', \<lparr>dtype = D_int64, cells = [VInt 1, VInt 2]\<rparr>),
       (''title'', \<lparr>dtype = D_object, cells = [VStr ''x'', VStr ''None'']\<rparr>)], None) \<and>
   objects (fst (lambda_handler example_env [example_record] example_world))
     (''clean'', ''data.parquet'') =
     Some [(''id'', \<lparr>dtype = D_int64, cells = [VInt 1, VInt 2]\<rparr>),
           (''title'', \<lparr>dtype = D_object, cells = [VStr ''x'', VNone]\<rparr>)]"
  by (simp add: handler_defs example_defs cast_column_def astype_str_def)

end
